theory Spec2Isabelle
  imports Complex_Main
begin

section \<open>JavaScript values and strings\<close>

text \<open>
  A JavaScript string is modelled as a \<open>string\<close>: each \<open>char\<close> stands for one code unit
  below 256. The values that \<open>App.jsx\<close> handles are strings, the number \<open>4\<close>, arrays and
  object literals of these, and whatever the login response carries in its
  \<open>access_token\<close> field. \<open>Number\<close> carries an integer, and its conversions are
  the plain decimal ones: they are JavaScript's for integers of magnitude below
  \<open>10^21\<close>, the only number the code itself builds being \<open>4\<close>; larger magnitudes, which
  JavaScript prints in exponent form, and fractions are not modelled.
\<close>

datatype jsval =
    Undefined
  | Null
  | Boolean bool
  | Number int
  | Str string
  | Array "jsval list"
  | Object "(string \<times> jsval) list"

text \<open>The truth value that \<open>!token\<close>, \<open>token &&\<close> and \<open>if (stored)\<close> test.\<close>

fun truthy :: "jsval \<Rightarrow> bool" where
  "truthy Undefined = False"
| "truthy Null = False"
| "truthy (Boolean b) = b"
| "truthy (Number n) = (n \<noteq> 0)"
| "truthy (Str s) = (s \<noteq> [])"
| "truthy (Array xs) = True"
| "truthy (Object kvs) = True"

text \<open>\<open>Array.prototype.join\<close>.\<close>

fun join :: "string \<Rightarrow> string list \<Rightarrow> string" where
  "join sep [] = []"
| "join sep [x] = x"
| "join sep (x # y # ys) = x @ sep @ join sep (y # ys)"

fun digits :: "nat \<Rightarrow> string" where
  "digits n =
     (if n < 10 then [char_of (48 + n)]
      else digits (n div 10) @ [char_of (48 + n mod 10)])"

declare digits.simps [simp del]

definition number_to_string :: "int \<Rightarrow> string" where
  "number_to_string n =
     (if n < 0 then CHR ''-'' # digits (nat (- n)) else digits (nat n))"

text \<open>
  The string conversion that a template literal and \<open>localStorage.setItem\<close> apply to
  a value.
\<close>

fun to_string :: "jsval \<Rightarrow> string" where
  "to_string Undefined = ''undefined''"
| "to_string Null = ''null''"
| "to_string (Boolean b) = (if b then ''true'' else ''false'')"
| "to_string (Number n) = number_to_string n"
| "to_string (Str s) = s"
| "to_string (Array xs) =
     join '','' (map (\<lambda>x. case x of Undefined \<Rightarrow> [] | Null \<Rightarrow> [] | _ \<Rightarrow> to_string x) xs)"
| "to_string (Object kvs) = ''[object Object]''"

text \<open>
  \<open>JSON.stringify\<close>: a string literal is quoted with the escapes of the JSON grammar,
  an \<open>undefined\<close> property is left out, an \<open>undefined\<close> array element is written
  \<open>null\<close>, and \<open>undefined\<close> itself has no serialisation.
\<close>

definition hex_digit :: "nat \<Rightarrow> char" where
  "hex_digit d = (if d < 10 then char_of (48 + d) else char_of (87 + d))"

definition quote_char :: "char \<Rightarrow> string" where
  "quote_char c =
     (if c = CHR 0x08 then [CHR 0x5C, CHR ''b'']
      else if c = CHR 0x09 then [CHR 0x5C, CHR ''t'']
      else if c = CHR 0x0A then [CHR 0x5C, CHR ''n'']
      else if c = CHR 0x0C then [CHR 0x5C, CHR ''f'']
      else if c = CHR 0x0D then [CHR 0x5C, CHR ''r'']
      else if c = CHR 0x22 then [CHR 0x5C, CHR 0x22]
      else if c = CHR 0x5C then [CHR 0x5C, CHR 0x5C]
      else if (of_char c :: nat) < 32
        then [CHR 0x5C, CHR ''u'', CHR ''0'', CHR ''0'',
              hex_digit (of_char c div 16), hex_digit (of_char c mod 16)]
      else [c])"

definition quote :: "string \<Rightarrow> string" where
  "quote s = CHR 0x22 # concat (map quote_char s) @ [CHR 0x22]"

fun stringify :: "jsval \<Rightarrow> string option" where
  "stringify Undefined = None"
| "stringify Null = Some ''null''"
| "stringify (Boolean b) = Some (if b then ''true'' else ''false'')"
| "stringify (Number n) = Some (number_to_string n)"
| "stringify (Str s) = Some (quote s)"
| "stringify (Array xs) =
     Some (''['' @ join '','' (map (\<lambda>x. case stringify x of None \<Rightarrow> ''null'' | Some t \<Rightarrow> t) xs)
           @ '']'')"
| "stringify (Object kvs) =
     Some (''{'' @ join '','' (concat (map (\<lambda>kv. case stringify (snd kv) of
                                               None \<Rightarrow> []
                                             | Some t \<Rightarrow> [quote (fst kv) @ '':'' @ t]) kvs))
           @ ''}'')"

text \<open>
  \<open>String.prototype.split\<close> with a one-character separator: the pieces between the
  separators, in order; the empty string gives one empty piece.
\<close>

fun split :: "char \<Rightarrow> string \<Rightarrow> string list" where
  "split sep [] = [[]]"
| "split sep (c # cs) =
     (if c = sep then [] # split sep cs
      else (case split sep cs of [] \<Rightarrow> [[c]] | p # ps \<Rightarrow> (c # p) # ps))"

text \<open>
  \<open>String.prototype.trim\<close> removes white space and line terminators from both ends.
  Below 256 these are the code units 9 to 13, 32 and 160.
\<close>

definition is_white_space :: "char \<Rightarrow> bool" where
  "is_white_space c = (of_char c \<in> {9, 10, 11, 12, 13, 32, 160 :: nat})"

definition trim :: "string \<Rightarrow> string" where
  "trim s = rev (dropWhile is_white_space (rev (dropWhile is_white_space s)))"


section \<open>The browser\<close>

text \<open>
  What the code reads and writes outside its own state: \<open>localStorage\<close> (\<open>getItem\<close>
  gives \<open>null\<close>, here \<open>None\<close>, for a key that was never set), the \<open>matches\<close> flag of
  \<open>window.matchMedia('(prefers-color-scheme: dark)')\<close>, and the class list of
  \<open>document.documentElement\<close>.
\<close>

record browser =
  localStorage :: "string \<rightharpoonup> string"
  prefers_dark :: bool
  root_classes :: "string set"

definition getItem :: "browser \<Rightarrow> string \<Rightarrow> string option" where
  "getItem b k = localStorage b k"

definition setItem :: "string \<Rightarrow> string \<Rightarrow> browser \<Rightarrow> browser" where
  "setItem k v b = b\<lparr>localStorage := (localStorage b)(k \<mapsto> v)\<rparr>"

text \<open>\<open>classList.toggle(name, force)\<close>.\<close>

definition toggle_class :: "string \<Rightarrow> bool \<Rightarrow> string set \<Rightarrow> string set" where
  "toggle_class name force cs = (if force then insert name cs else cs - {name})"


section \<open>useTheme\<close>

text \<open>The initialiser passed to \<open>useState\<close> (lines 18 to 23).\<close>

definition init_theme :: "browser \<Rightarrow> string" where
  "init_theme b =
     (case getItem b ''theme'' of
        Some stored \<Rightarrow>
          if stored \<noteq> [] then stored
          else (if prefers_dark b then ''dark'' else ''light'')
      | None \<Rightarrow> (if prefers_dark b then ''dark'' else ''light''))"

text \<open>The body of the effect (lines 26 and 27).\<close>

definition theme_effect :: "string \<Rightarrow> browser \<Rightarrow> browser" where
  "theme_effect t b =
     setItem ''theme'' t
       (b\<lparr>root_classes := toggle_class ''dark'' (t = ''dark'') (root_classes b)\<rparr>)"

text \<open>
  One \<open>useTheme\<close> instance: the state that \<open>useState\<close> holds, and the dependency list
  \<open>[theme]\<close> of the last run of the effect (\<open>None\<close> before the first run). \<open>setTheme\<close>
  replaces the state; the effect is a later step, which runs the body when the
  dependency differs from the one of its last run.
\<close>

record theme_hook =
  theme :: string
  effect_deps :: "string option"

definition useTheme_mount :: "browser \<Rightarrow> theme_hook" where
  "useTheme_mount b = \<lparr>theme = init_theme b, effect_deps = None\<rparr>"

definition setTheme :: "string \<Rightarrow> theme_hook \<Rightarrow> theme_hook" where
  "setTheme next h = h\<lparr>theme := next\<rparr>"

definition run_effect :: "theme_hook \<times> browser \<Rightarrow> theme_hook \<times> browser" where
  "run_effect st =
     (if effect_deps (fst st) = Some (theme (fst st)) then st
      else ((fst st)\<lparr>effect_deps := Some (theme (fst st))\<rparr>,
            theme_effect (theme (fst st)) (snd st)))"

text \<open>
  The toggle button of \<open>Navbar\<close> (line 86):
  \<open>setTheme(theme === 'dark' ? 'light' : 'dark')\<close>, followed by the effect.
\<close>

definition toggle :: "theme_hook \<Rightarrow> theme_hook" where
  "toggle h = setTheme (if theme h = ''dark'' then ''light'' else ''dark'') h"

definition click_toggle :: "theme_hook \<times> browser \<Rightarrow> theme_hook \<times> browser" where
  "click_toggle st = run_effect (toggle (fst st), snd st)"

text \<open>The stored theme is the one the effect wrote at its last run.\<close>

definition written_through :: "theme_hook \<times> browser \<Rightarrow> bool" where
  "written_through st =
     (case effect_deps (fst st) of
        None \<Rightarrow> True
      | Some d \<Rightarrow> getItem (snd st) ''theme'' = Some d)"


section \<open>useScrollDirection\<close>

text \<open>
  \<open>dir\<close> is the state, \<open>last_y\<close> the ref \<open>last.current\<close>, which starts at the offset
  \<open>window.scrollY\<close> of the first render. \<open>onScroll\<close> takes the offset that
  \<open>window.scrollY\<close> has at the event.
\<close>

record scroll =
  dir :: string
  last_y :: real

definition useScrollDirection_mount :: "real \<Rightarrow> scroll" where
  "useScrollDirection_mount y = \<lparr>dir = ''up'', last_y = y\<rparr>"

definition onScroll :: "real \<Rightarrow> scroll \<Rightarrow> scroll" where
  "onScroll y s = \<lparr>dir = (if y > last_y s then ''down'' else ''up''), last_y = y\<rparr>"

text \<open>The direction reported after each event of a sequence of scroll events.\<close>

fun directions :: "scroll \<Rightarrow> real list \<Rightarrow> string list" where
  "directions s [] = []"
| "directions s (y # ys) = dir (onScroll y s) # directions (onScroll y s) ys"


section \<open>Studio\<close>

record form =
  type :: string
  title :: string
  slug :: string
  summary :: string
  tech :: string

record studio =
  token :: jsval
  password :: string
  form :: form

record request =
  http_method :: string
  url :: string
  headers :: "(string \<times> string) list"
  body :: "string option"

text \<open>\<open>v || ''\<close> for \<open>v\<close> a string or absent (lines 286 and 287).\<close>

definition or_empty :: "string option \<Rightarrow> string" where
  "or_empty v = (case v of None \<Rightarrow> [] | Some s \<Rightarrow> (if s \<noteq> [] then s else []))"

definition Studio_mount :: "browser \<Rightarrow> studio" where
  "Studio_mount b =
     \<lparr>token = Str (or_empty (getItem b ''token'')),
      password = [],
      form = \<lparr>type = ''project'', title = [], slug = [], summary = [], tech = []\<rparr>\<rparr>"

text \<open>The page shows the login row when \<open>!token\<close> and the form when \<open>token\<close>.\<close>

definition authenticated :: "studio \<Rightarrow> bool" where
  "authenticated s = truthy (token s)"

text \<open>
  A promise that rejects is \<open>Inl\<close>: \<open>fetch\<close> on a network failure, \<open>res.json()\<close> on a
  body that is not JSON, \<open>data.access_token\<close> on a body that is \<open>null\<close>.
\<close>

datatype error = NetworkError | SyntaxError | TypeError

datatype response = Response (ok: bool) (json: "error + jsval")

fun access_token :: "jsval \<Rightarrow> error + jsval" where
  "access_token Undefined = Inl TypeError"
| "access_token Null = Inl TypeError"
| "access_token (Object kvs) =
     Inr (case map_of kvs ''access_token'' of None \<Rightarrow> Undefined | Some v \<Rightarrow> v)"
| "access_token v = Inr Undefined"

definition login_request :: "string \<Rightarrow> studio \<Rightarrow> request" where
  "login_request base s =
     \<lparr>http_method = ''POST'',
      url = base @ ''/auth/login'',
      headers = [(''Content-Type'', ''application/json'')],
      body = stringify (Object [(''password'', Str (password s))])\<rparr>"

text \<open>
  \<open>login\<close> after the request, given how \<open>fetch\<close> settled. A rejection leaves the
  state and the storage as they were.
\<close>

definition login :: "error + response \<Rightarrow> studio \<times> browser \<Rightarrow> error + studio \<times> browser" where
  "login outcome st =
     (case outcome of
        Inl e \<Rightarrow> Inl e
      | Inr res \<Rightarrow>
          if ok res then
            (case json res of
               Inl e \<Rightarrow> Inl e
             | Inr data \<Rightarrow>
                 (case access_token data of
                    Inl e \<Rightarrow> Inl e
                  | Inr v \<Rightarrow>
                      Inr ((fst st)\<lparr>token := v\<rparr>, setItem ''token'' (to_string v) (snd st))))
          else Inr st)"

text \<open>The tag list of lines 302 and 304: \<open>form.tech.split(',').map(s => s.trim())\<close>.\<close>

definition split_tags :: "string \<Rightarrow> string list" where
  "split_tags s = map trim (split CHR '','' s)"

definition create_body :: "form \<Rightarrow> jsval" where
  "create_body f =
     (if type f = ''project'' then
        Object [(''title'', Str (title f)), (''slug'', Str (slug f)),
                (''summary'', Str (summary f)),
                (''tech'', Array (map Str (split_tags (tech f))))]
      else if type f = ''blog'' then
        Object [(''title'', Str (title f)), (''slug'', Str (slug f)),
                (''excerpt'', Str (summary f)),
                (''tags'', Array (map Str (split_tags (tech f)))),
                (''read_time'', Number 4)]
      else
        Object [(''name'', Str (title f)), (''category'', Str (slug f)),
                (''level'', Str (summary f))])"

definition create_endpoint :: "form \<Rightarrow> string" where
  "create_endpoint f =
     (if type f = ''project'' then ''/projects''
      else if type f = ''blog'' then ''/blog''
      else ''/tech'')"

text \<open>The request that \<open>create\<close> passes to \<open>fetch\<close> (line 309).\<close>

definition create :: "string \<Rightarrow> studio \<Rightarrow> request" where
  "create base s =
     \<lparr>http_method = ''POST'',
      url = base @ create_endpoint (form s),
      headers = [(''Content-Type'', ''application/json''),
                 (''Authorization'', ''Bearer '' @ to_string (token s))],
      body = stringify (create_body (form s))\<rparr>"


section \<open>Example inputs\<close>

definition light_browser :: browser where
  "light_browser =
     \<lparr>localStorage = [''theme'' \<mapsto> ''light''], prefers_dark = True, root_classes = {}\<rparr>"

definition blue_browser :: browser where
  "blue_browser =
     \<lparr>localStorage = [''theme'' \<mapsto> ''blue''], prefers_dark = False, root_classes = {}\<rparr>"

definition dark_browser :: browser where
  "dark_browser = \<lparr>localStorage = Map.empty, prefers_dark = True, root_classes = {}\<rparr>"

definition fresh_browser :: browser where
  "fresh_browser = \<lparr>localStorage = Map.empty, prefers_dark = False, root_classes = {}\<rparr>"

definition foo_form :: "string \<Rightarrow> form" where
  "foo_form k = \<lparr>type = k, title = ''Foo'', slug = ''foo'', summary = ''bar'', tech = ''a,b''\<rparr>"

definition foo_studio :: "string \<Rightarrow> studio" where
  "foo_studio k = \<lparr>token = Str ''abc'', password = [], form = foo_form k\<rparr>"


definition abc_response :: response where
  "abc_response = Response True (Inr (Object [(''access_token'', Str ''abc'')]))"

definition empty_token_response :: response where
  "empty_token_response = Response True (Inr (Object [(''access_token'', Str [])]))"

definition failure_response :: response where
  "failure_response = Response False (Inr (Object [(''detail'', Str ''Invalid password'')]))"


section \<open>Splitting and trimming\<close>

lemma split_not_Nil: "split sep s \<noteq> []"
  by (induction s) (auto split: list.splits)

lemma join_Cons: "ps \<noteq> [] \<Longrightarrow> join sep (p # ps) = p @ sep @ join sep ps"
  by (cases ps) auto

lemma join_split: "join [sep] (split sep s) = s"
proof (induction s)
  case Nil
  show ?case by simp
next
  case (Cons c cs)
  show ?case
  proof (cases "c = sep")
    case True
    with Cons show ?thesis by (simp add: join_Cons split_not_Nil)
  next
    case False
    obtain p ps where eq: "split sep cs = p # ps"
      using split_not_Nil [of sep cs] by (cases "split sep cs") auto
    have "join [sep] ((c # p) # ps) = c # join [sep] (p # ps)"
      by (cases ps) auto
    with False eq Cons show ?thesis by simp
  qed
qed

lemma length_split: "length (split sep s) = Suc (count_list s sep)"
  by (induction s) (auto split: list.splits simp: split_not_Nil)

lemma split_no_sep: "p \<in> set (split sep s) \<Longrightarrow> sep \<notin> set p"
  by (induction s arbitrary: p) (auto split: if_splits list.splits)

lemma trim_decomp:
  "s = takeWhile is_white_space s @ trim s
         @ rev (takeWhile is_white_space (rev (dropWhile is_white_space s)))"
proof -
  let ?d = "dropWhile is_white_space s"
  have "rev ?d = takeWhile is_white_space (rev ?d) @ dropWhile is_white_space (rev ?d)"
    by simp
  then have "?d = rev (dropWhile is_white_space (rev ?d)) @ rev (takeWhile is_white_space (rev ?d))"
    by (metis rev_append rev_rev_ident)
  then have "?d = trim s @ rev (takeWhile is_white_space (rev ?d))"
    by (simp add: trim_def)
  moreover have "s = takeWhile is_white_space s @ ?d" by simp
  ultimately show ?thesis by metis
qed

lemma trim_hd: "trim s \<noteq> [] \<Longrightarrow> \<not> is_white_space (hd (trim s))"
proof -
  assume ne: "trim s \<noteq> []"
  let ?d = "dropWhile is_white_space s"
  let ?e = "dropWhile is_white_space (rev ?d)"
  have e: "?e \<noteq> []" using ne by (simp add: trim_def)
  then have dne: "?d \<noteq> []" by (metis dropWhile.simps(1) rev.simps(1))
  have "hd (trim s) = last ?e" using e by (simp add: trim_def hd_rev)
  also have "\<dots> = last (rev ?d)"
    by (metis e last_appendR takeWhile_dropWhile_id)
  also have "\<dots> = hd ?d" using dne by (simp add: last_rev)
  finally show ?thesis using dne hd_dropWhile by metis
qed

lemma trim_last: "trim s \<noteq> [] \<Longrightarrow> \<not> is_white_space (last (trim s))"
proof -
  assume ne: "trim s \<noteq> []"
  let ?e = "dropWhile is_white_space (rev (dropWhile is_white_space s))"
  have e: "?e \<noteq> []" using ne by (simp add: trim_def)
  have "last (trim s) = hd ?e" using e by (simp add: trim_def last_rev)
  then show ?thesis using e hd_dropWhile by metis
qed

lemma trim_spec:
  "\<exists>l r. p = l @ trim p @ r \<and> (\<forall>c \<in> set l \<union> set r. is_white_space c)
         \<and> (trim p = [] \<or> \<not> is_white_space (hd (trim p)) \<and> \<not> is_white_space (last (trim p)))"
proof -
  let ?l = "takeWhile is_white_space p"
  let ?r = "rev (takeWhile is_white_space (rev (dropWhile is_white_space p)))"
  have "p = ?l @ trim p @ ?r" by (rule trim_decomp)
  moreover have "\<forall>c \<in> set ?l \<union> set ?r. is_white_space c"
    by (auto dest: set_takeWhileD)
  moreover have "trim p = [] \<or> \<not> is_white_space (hd (trim p)) \<and> \<not> is_white_space (last (trim p))"
    using trim_hd trim_last by blast
  ultimately show ?thesis by blast
qed

lemma split_append:
  "sep \<notin> set q \<Longrightarrow>
     split sep (q @ r) = (case split sep r of [] \<Rightarrow> [q] | x # xs \<Rightarrow> (q @ x) # xs)"
  by (induction q) (auto split: list.splits simp: split_not_Nil)

lemma split_join:
  "ps \<noteq> [] \<Longrightarrow> \<forall>p \<in> set ps. sep \<notin> set p \<Longrightarrow> split sep (join [sep] ps) = ps"
proof (induction ps)
  case Nil
  then show ?case by simp
next
  case (Cons p ps)
  show ?case
  proof (cases ps)
    case Nil
    have "split sep p = [p]" using split_append [of sep p "[]"] Cons.prems by simp
    with Nil show ?thesis by simp
  next
    case (Cons q qs)
    then have "join [sep] (p # ps) = p @ sep # join [sep] ps" by simp
    moreover have "split sep (sep # join [sep] ps) = [] # ps"
      using Cons.IH Cons.prems Cons by simp
    ultimately show ?thesis using split_append [of sep p "sep # join [sep] ps"] Cons.prems by simp
  qed
qed

lemma trim_unique:
  assumes p: "p = l @ t @ r"
    and ws: "\<forall>c \<in> set l \<union> set r. is_white_space c"
    and ends: "t = [] \<or> \<not> is_white_space (hd t) \<and> \<not> is_white_space (last t)"
  shows "trim p = t"
proof (cases "t = []")
  case True
  with p ws have "\<forall>c \<in> set p. is_white_space c" by auto
  then have d: "dropWhile is_white_space p = []" by simp
  show ?thesis unfolding trim_def d using True by simp
next
  case False
  with ends have h: "\<not> is_white_space (hd t)" and e: "\<not> is_white_space (last t)" by auto
  have "dropWhile is_white_space p = dropWhile is_white_space (t @ r)"
    using p ws by (simp add: dropWhile_append)
  also have "\<dots> = t @ r"
    using False h by (cases t) auto
  finally have d: "dropWhile is_white_space p = t @ r" .
  have "dropWhile is_white_space (rev (t @ r)) = dropWhile is_white_space (rev t)"
    using ws by (simp add: dropWhile_append)
  also have "\<dots> = rev t"
    using False e by (cases "rev t") (auto simp: last_rev [symmetric] hd_rev)
  finally show ?thesis using d by (simp add: trim_def)
qed


lemma split_iff:
  "ps = split sep s \<longleftrightarrow> ps \<noteq> [] \<and> (\<forall>p \<in> set ps. sep \<notin> set p) \<and> join [sep] ps = s"
proof
  assume eq: "ps = split sep s"
  have "split sep s \<noteq> []" by (rule split_not_Nil)
  moreover have "\<forall>p \<in> set (split sep s). sep \<notin> set p"
    using split_no_sep by blast
  moreover have "join [sep] (split sep s) = s" by (rule join_split)
  ultimately show "ps \<noteq> [] \<and> (\<forall>p \<in> set ps. sep \<notin> set p) \<and> join [sep] ps = s"
    unfolding eq by blast
next
  assume r: "ps \<noteq> [] \<and> (\<forall>p \<in> set ps. sep \<notin> set p) \<and> join [sep] ps = s"
  then have "split sep (join [sep] ps) = ps" by (intro split_join) blast+
  with r show "ps = split sep s" by simp
qed

lemma trim_iff:
  "t = trim p
     \<longleftrightarrow> (\<exists>l r. p = l @ t @ r \<and> (\<forall>c \<in> set l \<union> set r. is_white_space c)
           \<and> (t = [] \<or> \<not> is_white_space (hd t) \<and> \<not> is_white_space (last t)))"
proof
  assume "t = trim p"
  then show "\<exists>l r. p = l @ t @ r \<and> (\<forall>c \<in> set l \<union> set r. is_white_space c)
           \<and> (t = [] \<or> \<not> is_white_space (hd t) \<and> \<not> is_white_space (last t))"
    using trim_spec [of p] by simp
next
  assume "\<exists>l r. p = l @ t @ r \<and> (\<forall>c \<in> set l \<union> set r. is_white_space c)
           \<and> (t = [] \<or> \<not> is_white_space (hd t) \<and> \<not> is_white_space (last t))"
  then obtain l r where "p = l @ t @ r" "\<forall>c \<in> set l \<union> set r. is_white_space c"
    "t = [] \<or> \<not> is_white_space (hd t) \<and> \<not> is_white_space (last t)"
    by blast
  then show "t = trim p" using trim_unique [of p l t r] by simp
qed


text \<open>
  C3. The tag list of a submission is the tags field split on commas with each piece
  trimmed, in the order of the pieces. The pieces are the one non-empty list of
  comma-free strings that gives the field back when joined with commas, so they are the
  segments between the commas and none is dropped, an empty one neither: there is one
  tag more than there are commas. A trimmed piece is the piece without the white space
  at its two ends: what remains is empty or neither starts nor ends with white space.
  The field \<open>react, ts ,  node\<close> gives the list \<open>react\<close>, \<open>ts\<close>, \<open>node\<close>.
\<close>

theorem split_tags_rule:
  "(\<forall>ps. ps = split CHR '','' s
      \<longleftrightarrow> ps \<noteq> [] \<and> (\<forall>p \<in> set ps. CHR '','' \<notin> set p) \<and> join '','' ps = s)
   \<and> (\<forall>p t. t = trim p
      \<longleftrightarrow> (\<exists>l r. p = l @ t @ r \<and> (\<forall>c \<in> set l \<union> set r. is_white_space c)
            \<and> (t = [] \<or> \<not> is_white_space (hd t) \<and> \<not> is_white_space (last t))))
   \<and> split_tags s = map trim (split CHR '','' s)
   \<and> length (split_tags s) = Suc (count_list s CHR '','')
   \<and> split_tags ''react, ts ,  node'' = [''react'', ''ts'', ''node'']"
proof (intro conjI allI)
  show "ps = split CHR '','' s
      \<longleftrightarrow> ps \<noteq> [] \<and> (\<forall>p \<in> set ps. CHR '','' \<notin> set p) \<and> join '','' ps = s" for ps
    by (rule split_iff)
  show "t = trim p
      \<longleftrightarrow> (\<exists>l r. p = l @ t @ r \<and> (\<forall>c \<in> set l \<union> set r. is_white_space c)
            \<and> (t = [] \<or> \<not> is_white_space (hd t) \<and> \<not> is_white_space (last t)))" for p t
    by (rule trim_iff)
  show "split_tags s = map trim (split CHR '','' s)"
    by (simp add: split_tags_def)
  show "length (split_tags s) = Suc (count_list s CHR '','')"
    by (simp add: split_tags_def length_split)
  show "split_tags ''react, ts ,  node'' = [''react'', ''ts'', ''node'']"
    by (simp add: split_tags_def trim_def is_white_space_def)
qed

text \<open>The rule at the field \<open> a,,b \<close>, whose middle segment is empty.\<close>

theorem split_tags_rule_witness:
  "split CHR '','' '' a,,b '' = ['' a'', [], ''b '']
   \<and> split_tags '' a,,b '' = [''a'', [], ''b'']
   \<and> length (split_tags '' a,,b '') = 3"
proof -
  note r = split_tags_rule [of "'' a,,b ''"]
  have 1: "split CHR '','' '' a,,b '' = ['' a'', [], ''b '']"
    by simp
  have 2: "split_tags '' a,,b '' = [''a'', [], ''b'']"
    using r 1 by (simp add: trim_def is_white_space_def)
  have 3: "length (split_tags '' a,,b '') = 3"
    using r by simp
  from 1 2 3 show ?thesis by blast
qed


section \<open>The requests of create\<close>


lemma number_to_string_4: "number_to_string 4 = ''4''"
  by code_simp

text \<open>
  C4. For the draft of kind \<open>project\<close> with title \<open>Foo\<close>, slug \<open>foo\<close>, summary \<open>bar\<close> and
  tags field \<open>a,b\<close>, \<open>create\<close> issues a POST to \<open>/projects\<close> under the base address; the
  body is the object with \<open>title\<close>, \<open>slug\<close>, \<open>summary\<close> and \<open>tech\<close> in this order, and the
  text sent is its serialisation. The same mapping holds for every project draft.
\<close>

theorem project_submission:
  \<open>create base (foo_studio ''project'')
     = \<lparr>http_method = ''POST'', url = base @ ''/projects'',
        headers = [(''Content-Type'', ''application/json''), (''Authorization'', ''Bearer abc'')],
        body = Some ''{"title":"Foo","slug":"foo","summary":"bar","tech":["a","b"]}''\<rparr>
   \<and> create_body (foo_form ''project'')
     = Object [(''title'', Str ''Foo''), (''slug'', Str ''foo''), (''summary'', Str ''bar''),
               (''tech'', Array [Str ''a'', Str ''b''])]
   \<and> create_body (f\<lparr>type := ''project''\<rparr>)
     = Object [(''title'', Str (title f)), (''slug'', Str (slug f)),
               (''summary'', Str (summary f)),
               (''tech'', Array (map Str (split_tags (tech f))))]\<close>
  by (simp add: create_def create_body_def create_endpoint_def foo_studio_def foo_form_def
        split_tags_def trim_def is_white_space_def quote_def quote_char_def)

text \<open>
  C5. For the draft of kind \<open>blog\<close> with the same fields, \<open>create\<close> issues a POST to
  \<open>/blog\<close> under the base address; the body is the object with \<open>title\<close>, \<open>slug\<close>,
  \<open>excerpt\<close>, \<open>tags\<close> and \<open>read_time\<close> in this order, and the text sent is its
  serialisation. For every blog draft \<open>read_time\<close> is the number 4.
\<close>

theorem blog_submission:
  \<open>create base (foo_studio ''blog'')
     = \<lparr>http_method = ''POST'', url = base @ ''/blog'',
        headers = [(''Content-Type'', ''application/json''), (''Authorization'', ''Bearer abc'')],
        body = Some ''{"title":"Foo","slug":"foo","excerpt":"bar","tags":["a","b"],"read_time":4}''\<rparr>
   \<and> create_body (foo_form ''blog'')
     = Object [(''title'', Str ''Foo''), (''slug'', Str ''foo''), (''excerpt'', Str ''bar''),
               (''tags'', Array [Str ''a'', Str ''b'']), (''read_time'', Number 4)]
   \<and> create_body (f\<lparr>type := ''blog''\<rparr>)
     = Object [(''title'', Str (title f)), (''slug'', Str (slug f)),
               (''excerpt'', Str (summary f)),
               (''tags'', Array (map Str (split_tags (tech f)))),
               (''read_time'', Number 4)]\<close>
  by (simp add: create_def create_body_def create_endpoint_def foo_studio_def foo_form_def
        split_tags_def trim_def is_white_space_def quote_def quote_char_def
        number_to_string_4)

section \<open>The theme\<close>

text \<open>
  C1. When the theme is first computed, a stored preference \<open>light\<close> or \<open>dark\<close> under
  the key \<open>theme\<close> is the result whatever the colour scheme of the environment is; with
  nothing stored the result is \<open>dark\<close> when the environment prefers dark and \<open>light\<close>
  otherwise; with nothing stored and no dark preference it is \<open>light\<close>.
\<close>

theorem init_theme_precedence:
  "(getItem b ''theme'' = Some v \<and> v \<in> {''light'', ''dark''}
      \<longrightarrow> (\<forall>p. init_theme (b\<lparr>prefers_dark := p\<rparr>) = v))
   \<and> (getItem b ''theme'' = None
      \<longrightarrow> init_theme b = (if prefers_dark b then ''dark'' else ''light''))
   \<and> (getItem b ''theme'' = None \<and> \<not> prefers_dark b \<longrightarrow> init_theme b = ''light'')"
  by (auto simp: init_theme_def getItem_def)

text \<open>
  The precedence with \<open>light\<close> stored in an environment that prefers dark, and with
  nothing stored in an environment that does and one that does not.
\<close>

theorem init_theme_precedence_witness:
  "init_theme (light_browser\<lparr>prefers_dark := True\<rparr>) = ''light''
   \<and> init_theme (fresh_browser\<lparr>prefers_dark := True\<rparr>) = ''dark''
   \<and> init_theme fresh_browser = ''light''"
  using init_theme_precedence [of light_browser "''light''"]
        init_theme_precedence [of "fresh_browser\<lparr>prefers_dark := True\<rparr>" "[]"]
        init_theme_precedence [of fresh_browser "[]"]
  by (simp add: light_browser_def fresh_browser_def getItem_def)

text \<open>
  C10. The initialiser returns any non-empty stored string as it is, with no check
  against \<open>light\<close> and \<open>dark\<close>; a stored empty string counts as absent and the colour
  scheme of the environment decides.
\<close>

theorem init_theme_unvalidated:
  "(getItem b ''theme'' = Some v \<and> v \<noteq> [] \<longrightarrow> init_theme b = v)
   \<and> (getItem b ''theme'' = Some []
      \<longrightarrow> init_theme b = (if prefers_dark b then ''dark'' else ''light''))"
  by (auto simp: init_theme_def)

text \<open>The stored string \<open>blue\<close>, and a stored empty string where dark is preferred.\<close>

theorem init_theme_unvalidated_witness:
  "init_theme blue_browser = ''blue''
   \<and> init_theme (setItem ''theme'' [] light_browser) = ''dark''"
  using init_theme_unvalidated [of blue_browser "''blue''"]
        init_theme_unvalidated [of "setItem ''theme'' [] light_browser" "[]"]
  by (simp add: blue_browser_def light_browser_def getItem_def setItem_def)

section \<open>The scroll direction\<close>

lemma directions_length: "length (directions s ys) = length ys"
  by (induction ys arbitrary: s) auto

lemma directions_down:
  "sorted_wrt (<) (last_y s # ys) \<Longrightarrow> directions s ys = replicate (length ys) ''down''"
  by (induction ys arbitrary: s) (auto simp: onScroll_def)

lemma directions_up:
  "sorted_wrt (\<ge>) (last_y s # ys) \<Longrightarrow> directions s ys = replicate (length ys) ''up''"
proof (induction ys arbitrary: s)
  case Nil
  show ?case by simp
next
  case (Cons y ys)
  from Cons.prems have le: "y \<le> last_y s" and rest: "sorted_wrt (\<ge>) (y # ys)"
    by auto
  have "directions (onScroll y s) ys = replicate (length ys) ''up''"
    using Cons.IH [of "onScroll y s"] rest by (simp add: onScroll_def)
  with le show ?case by (simp add: onScroll_def)
qed

lemma directions_constant:
  "last_y s = y \<Longrightarrow> directions s (replicate n y) = replicate n ''up''"
  by (induction n arbitrary: s) (auto simp: onScroll_def)

text \<open>
  C6. At each scroll event the tracker reports \<open>down\<close> when the new offset is greater
  than the recorded one and \<open>up\<close> when it is smaller or equal, and records the new
  offset. Over offsets that increase at every step (each greater than the one before,
  starting from the offset at mount) every step reports \<open>down\<close>; over offsets that never
  increase every step reports \<open>up\<close>; over a constant sequence every step reports \<open>up\<close>.
\<close>

theorem scroll_direction:
  "dir (onScroll y s) = (if last_y s < y then ''down'' else ''up'')
   \<and> last_y (onScroll y s) = y
   \<and> (sorted_wrt (<) (y0 # ys)
      \<longrightarrow> directions (useScrollDirection_mount y0) ys = replicate (length ys) ''down'')
   \<and> (sorted_wrt (\<ge>) (y0 # ys)
      \<longrightarrow> directions (useScrollDirection_mount y0) ys = replicate (length ys) ''up'')
   \<and> directions (useScrollDirection_mount y0) (replicate n y0) = replicate n ''up''"
proof -
  have a: "dir (onScroll y s) = (if last_y s < y then ''down'' else ''up'')"
    and b: "last_y (onScroll y s) = y"
    by (simp_all add: onScroll_def)
  have c: "sorted_wrt (<) (y0 # ys)
      \<longrightarrow> directions (useScrollDirection_mount y0) ys = replicate (length ys) ''down''"
    using directions_down [of "useScrollDirection_mount y0" ys]
    by (simp add: useScrollDirection_mount_def)
  have d: "sorted_wrt (\<ge>) (y0 # ys)
      \<longrightarrow> directions (useScrollDirection_mount y0) ys = replicate (length ys) ''up''"
    using directions_up [of "useScrollDirection_mount y0" ys]
    by (simp add: useScrollDirection_mount_def)
  have e: "directions (useScrollDirection_mount y0) (replicate n y0) = replicate n ''up''"
    by (rule directions_constant) (simp add: useScrollDirection_mount_def)
  from a b c d e show ?thesis by blast
qed

text \<open>An increasing, a decreasing and a constant run of offsets.\<close>

theorem scroll_direction_witness:
  "directions (useScrollDirection_mount 0) [10, 25, 40] = [''down'', ''down'', ''down'']
   \<and> directions (useScrollDirection_mount 40) [25, 25, 0] = [''up'', ''up'', ''up'']
   \<and> directions (useScrollDirection_mount 7) [7, 7] = [''up'', ''up'']"
  using scroll_direction [of 0 "useScrollDirection_mount 0" 0 "[10, 25, 40]" 2]
        scroll_direction [of 0 "useScrollDirection_mount 0" 40 "[25, 25, 0]" 2]
        scroll_direction [of 0 "useScrollDirection_mount 0" 7 "[]" 2]
  by (simp add: numeral_2_eq_2)

section \<open>Toggling the theme\<close>

lemma click_toggle_theme:
  "theme (fst (click_toggle st)) = (if theme (fst st) = ''dark'' then ''light'' else ''dark'')"
  by (simp add: click_toggle_def run_effect_def toggle_def setTheme_def)

lemma click_toggle_deps:
  "effect_deps (fst (click_toggle st)) = Some (theme (fst (click_toggle st)))"
  by (simp add: click_toggle_def run_effect_def toggle_def setTheme_def)

lemma click_toggle_stored:
  "effect_deps (fst st) = Some (theme (fst st))
   \<Longrightarrow> getItem (snd (click_toggle st)) ''theme'' = Some (theme (fst (click_toggle st)))"
  by (simp add: click_toggle_def run_effect_def toggle_def setTheme_def theme_effect_def
        getItem_def setItem_def)

lemma mount_settled:
  "effect_deps (fst (run_effect (useTheme_mount b, b))) = Some (init_theme b)
   \<and> theme (fst (run_effect (useTheme_mount b, b))) = init_theme b
   \<and> getItem (snd (run_effect (useTheme_mount b, b))) ''theme'' = Some (init_theme b)"
  by (simp add: run_effect_def useTheme_mount_def theme_effect_def getItem_def setItem_def)

text \<open>
  C8. A theme value is \<open>light\<close> or \<open>dark\<close>, and once the effect has run after mount the
  stored entry under \<open>theme\<close> is the theme in memory. From every such starting value,
  toggling the theme twice restores the theme in memory and the stored entry under
  \<open>theme\<close>.
\<close>

theorem toggle_twice:
  "getItem (snd (run_effect (useTheme_mount b, b))) ''theme''
     = Some (theme (fst (run_effect (useTheme_mount b, b))))
   \<and> (theme (fst st) \<in> {''light'', ''dark''} \<and> getItem (snd st) ''theme'' = Some (theme (fst st))
      \<longrightarrow> theme (fst (click_toggle (click_toggle st))) = theme (fst st)
        \<and> getItem (snd (click_toggle (click_toggle st))) ''theme'' = getItem (snd st) ''theme'')"
proof -
  have deps: "effect_deps (fst (click_toggle st)) = Some (theme (fst (click_toggle st)))"
    by (rule click_toggle_deps)
  have stored: "getItem (snd (click_toggle (click_toggle st))) ''theme''
                  = Some (theme (fst (click_toggle (click_toggle st))))"
    using click_toggle_stored [OF deps] .
  have th: "theme (fst (click_toggle (click_toggle st)))
              = (if theme (fst st) = ''dark'' then ''dark'' else ''light'')"
    by (simp add: click_toggle_theme)
  have mounted: "getItem (snd (run_effect (useTheme_mount b, b))) ''theme''
                   = Some (theme (fst (run_effect (useTheme_mount b, b))))"
    using mount_settled [of b] by simp
  show ?thesis using stored th mounted by auto
qed

text \<open>
  Two toggles after mount with \<open>light\<close> stored, and after mount with nothing stored where
  the environment prefers dark.
\<close>

theorem toggle_twice_witness:
  "theme (fst (run_effect (useTheme_mount light_browser, light_browser))) = ''light''
   \<and> theme (fst (click_toggle (click_toggle (run_effect (useTheme_mount light_browser, light_browser))))) = ''light''
   \<and> getItem (snd (click_toggle (click_toggle (run_effect (useTheme_mount light_browser, light_browser))))) ''theme''
       = Some ''light''
   \<and> theme (fst (run_effect (useTheme_mount dark_browser, dark_browser))) = ''dark''
   \<and> theme (fst (click_toggle (click_toggle (run_effect (useTheme_mount dark_browser, dark_browser))))) = ''dark''
   \<and> getItem (snd (click_toggle (click_toggle (run_effect (useTheme_mount dark_browser, dark_browser))))) ''theme''
       = Some ''dark''"
  using toggle_twice [of light_browser "run_effect (useTheme_mount light_browser, light_browser)"]
        toggle_twice [of dark_browser "run_effect (useTheme_mount dark_browser, dark_browser)"]
        mount_settled [of light_browser] mount_settled [of dark_browser]
  by (simp add: init_theme_def light_browser_def dark_browser_def getItem_def)

section \<open>Write-through and login\<close>

lemma run_effect_setTheme:
  "written_through (h, b) \<Longrightarrow>
     theme (fst (run_effect (setTheme next h, b))) = next
     \<and> getItem (snd (run_effect (setTheme next h, b))) ''theme'' = Some next
     \<and> effect_deps (fst (run_effect (setTheme next h, b))) = Some next"
  by (auto simp: written_through_def run_effect_def setTheme_def theme_effect_def
        getItem_def setItem_def split: option.splits)

lemma login_string_token:
  "access_token data = Inr (Str t) \<Longrightarrow>
     login (Inr (Response True (Inr data))) (s, b) = Inr (s\<lparr>token := Str t\<rparr>, setItem ''token'' t b)"
  by (simp add: login_def)

text \<open>
  C7, as amended. The stored theme is always the one the effect wrote at its last run:
  this holds at mount and \<open>setTheme\<close> keeps it. After \<open>setTheme\<close> has replaced the state
  of a \<open>useTheme\<close> instance and the effect of that instance has run, the theme in memory
  and the entry stored under \<open>theme\<close> are both the new value. After a login that
  succeeds with a string as access token, the token in memory and the entry stored
  under \<open>token\<close> are that string.
\<close>

theorem write_through:
  "written_through (useTheme_mount b, b)
   \<and> (written_through (h, b) \<longrightarrow>
        written_through (setTheme next h, b)
        \<and> theme (fst (run_effect (setTheme next h, b))) = next
        \<and> getItem (snd (run_effect (setTheme next h, b))) ''theme'' = Some next
        \<and> written_through (run_effect (setTheme next h, b)))
   \<and> (access_token data = Inr (Str t) \<longrightarrow>
        login (Inr (Response True (Inr data))) (s, b)
          = Inr (s\<lparr>token := Str t\<rparr>, setItem ''token'' t b)
        \<and> token (s\<lparr>token := Str t\<rparr>) = Str t
        \<and> getItem (setItem ''token'' t b) ''token'' = Some t)"
proof -
  have a: "written_through (useTheme_mount b, b)"
    by (simp add: written_through_def useTheme_mount_def)
  have b: "written_through (h, b) \<longrightarrow>
        written_through (setTheme next h, b)
        \<and> theme (fst (run_effect (setTheme next h, b))) = next
        \<and> getItem (snd (run_effect (setTheme next h, b))) ''theme'' = Some next
        \<and> written_through (run_effect (setTheme next h, b))"
  proof
    assume w: "written_through (h, b)"
    have 1: "written_through (setTheme next h, b)"
      using w by (simp add: written_through_def setTheme_def split: option.splits)
    note 2 = run_effect_setTheme [OF w, of "next"]
    have 3: "written_through (run_effect (setTheme next h, b))"
      using 2 by (simp add: written_through_def)
    from 1 2 3 show "written_through (setTheme next h, b)
        \<and> theme (fst (run_effect (setTheme next h, b))) = next
        \<and> getItem (snd (run_effect (setTheme next h, b))) ''theme'' = Some next
        \<and> written_through (run_effect (setTheme next h, b))"
      by blast
  qed
  have c: "access_token data = Inr (Str t) \<longrightarrow>
        login (Inr (Response True (Inr data))) (s, b)
          = Inr (s\<lparr>token := Str t\<rparr>, setItem ''token'' t b)
        \<and> token (s\<lparr>token := Str t\<rparr>) = Str t
        \<and> getItem (setItem ''token'' t b) ''token'' = Some t"
    by (simp add: login_string_token getItem_def setItem_def)
  from a b c show ?thesis by blast
qed

text \<open>Setting \<open>dark\<close> where \<open>light\<close> is stored, and a login that returns the token \<open>abc\<close>.\<close>

theorem write_through_witness:
  "theme (fst (run_effect (setTheme ''dark'' (useTheme_mount light_browser), light_browser))) = ''dark''
   \<and> getItem (snd (run_effect (setTheme ''dark'' (useTheme_mount light_browser), light_browser))) ''theme''
       = Some ''dark''
   \<and> login (Inr abc_response) (Studio_mount fresh_browser, fresh_browser)
       = Inr ((Studio_mount fresh_browser)\<lparr>token := Str ''abc''\<rparr>, setItem ''token'' ''abc'' fresh_browser)
   \<and> getItem (setItem ''token'' ''abc'' fresh_browser) ''token'' = Some ''abc''"
  using write_through [of light_browser "useTheme_mount light_browser" "''dark''"
                          "Object [(''access_token'', Str ''abc'')]" "''abc''"
                          "Studio_mount fresh_browser"]
        write_through [of fresh_browser "useTheme_mount fresh_browser" "''dark''"
                          "Object [(''access_token'', Str ''abc'')]" "''abc''"
                          "Studio_mount fresh_browser"]
  by (simp add: abc_response_def)

text \<open>
  C7 as stated fails for the theme: the write is made by the effect, not by the setter.
  With \<open>light\<close> stored and the hook mounted, after \<open>setTheme('dark')\<close> has replaced the
  state and before the effect runs, the theme in memory is \<open>dark\<close> and the stored entry
  is still \<open>light\<close>.
\<close>

theorem write_through_counterexample:
  "theme (setTheme ''dark'' (fst (run_effect (useTheme_mount light_browser, light_browser)))) = ''dark''
   \<and> getItem (snd (run_effect (useTheme_mount light_browser, light_browser))) ''theme'' = Some ''light''"
  by (simp add: run_effect_def setTheme_def theme_effect_def useTheme_mount_def init_theme_def
        light_browser_def getItem_def setItem_def)

text \<open>
  C2, as amended. When the response has a success status and its body gives a non-empty
  string as \<open>access_token\<close>, \<open>login\<close> stores that string in memory and under the key
  \<open>token\<close>, and the page is authenticated. When the status is not a success, the state
  and the storage stay as they were.
\<close>

theorem login_transition:
  "(access_token data = Inr (Str t) \<and> t \<noteq> [] \<longrightarrow>
      login (Inr (Response True (Inr data))) (s, b)
        = Inr (s\<lparr>token := Str t\<rparr>, setItem ''token'' t b)
      \<and> authenticated (s\<lparr>token := Str t\<rparr>)
      \<and> token (s\<lparr>token := Str t\<rparr>) = Str t
      \<and> getItem (setItem ''token'' t b) ''token'' = Some t)
   \<and> (\<not> ok res \<longrightarrow> login (Inr res) (s, b) = Inr (s, b))"
  by (simp add: login_string_token login_def authenticated_def getItem_def setItem_def)

text \<open>
  A login from the unauthenticated state against a response with the token \<open>abc\<close>, and
  against a failure response.
\<close>

theorem login_transition_witness:
  "\<not> authenticated (Studio_mount fresh_browser)
   \<and> login (Inr abc_response) (Studio_mount fresh_browser, fresh_browser)
       = Inr ((Studio_mount fresh_browser)\<lparr>token := Str ''abc''\<rparr>, setItem ''token'' ''abc'' fresh_browser)
   \<and> authenticated ((Studio_mount fresh_browser)\<lparr>token := Str ''abc''\<rparr>)
   \<and> getItem (setItem ''token'' ''abc'' fresh_browser) ''token'' = Some ''abc''
   \<and> login (Inr failure_response) (Studio_mount fresh_browser, fresh_browser)
       = Inr (Studio_mount fresh_browser, fresh_browser)
   \<and> getItem fresh_browser ''token'' = None"
  using login_transition [of "Object [(''access_token'', Str ''abc'')]" "''abc''"
                             "Studio_mount fresh_browser" fresh_browser failure_response]
  by (simp add: abc_response_def failure_response_def authenticated_def Studio_mount_def
        or_empty_def getItem_def fresh_browser_def)

text \<open>
  C2 as stated fails at a success response whose \<open>access_token\<close> field is the empty
  string: the empty string is stored under \<open>token\<close>, and the state is the unauthenticated
  one it was.
\<close>

theorem login_empty_token_counterexample:
  "\<not> authenticated (Studio_mount fresh_browser)
   \<and> login (Inr empty_token_response) (Studio_mount fresh_browser, fresh_browser)
       = Inr (Studio_mount fresh_browser, setItem ''token'' [] fresh_browser)"
  by (simp add: login_def empty_token_response_def authenticated_def Studio_mount_def
        or_empty_def getItem_def fresh_browser_def)

end
